theory Spec2Isabelle
  imports Complex_Main "HOL-Library.Sublist"
begin

section \<open>Python strings\<close>

text \<open>
  Strings are lists of characters restricted to ASCII: \<open>lower\<close>, \<open>upper\<close> and
  \<open>capitalize\<close> change the 26 letters only, a decimal digit is one of \<open>0\<close> to \<open>9\<close>, and
  whitespace is what \<open>str.isspace\<close> accepts below code point 128 (tab, line feed, vertical
  tab, form feed, carriage return, the four separators 28 to 31 and the space).
  The operator \<open>in\<close> on two strings is \<^const>\<open>sublist\<close> (a contiguous run).
\<close>

definition lower_letters :: string where
  "lower_letters = ''abcdefghijklmnopqrstuvwxyz''"

definition upper_letters :: string where
  "upper_letters = ''ABCDEFGHIJKLMNOPQRSTUVWXYZ''"

definition upper_char :: "char \<Rightarrow> char" where
  "upper_char c = (case map_of (zip lower_letters upper_letters) c of Some u \<Rightarrow> u | None \<Rightarrow> c)"

definition lower_char :: "char \<Rightarrow> char" where
  "lower_char c = (case map_of (zip upper_letters lower_letters) c of Some l \<Rightarrow> l | None \<Rightarrow> c)"

definition upper :: "string \<Rightarrow> string" where
  "upper s = map upper_char s"

definition lower :: "string \<Rightarrow> string" where
  "lower s = map lower_char s"

definition capitalize :: "string \<Rightarrow> string" where
  "capitalize s = (case s of [] \<Rightarrow> [] | c # cs \<Rightarrow> upper_char c # lower cs)"

definition is_space :: "char \<Rightarrow> bool" where
  "is_space c = (c \<in> set [CHR 0x09, CHR 0x0A, CHR 0x0B, CHR 0x0C, CHR 0x0D,
                            CHR 0x1C, CHR 0x1D, CHR 0x1E, CHR 0x1F, CHR '' ''])"

definition is_digit :: "char \<Rightarrow> bool" where
  "is_digit c = (c \<in> set ''0123456789'')"

definition digit_val :: "char \<Rightarrow> nat" where
  "digit_val c = (case map_of (zip ''0123456789'' [0, 1, 2, 3, 4, 5, 6, 7, 8, 9]) c of
                    Some d \<Rightarrow> d | None \<Rightarrow> 0)"

definition strip :: "string \<Rightarrow> string" where
  "strip s = rev (dropWhile is_space (rev (dropWhile is_space s)))"

text \<open>\<open>s.replace(" ", "")\<close>: every space character is removed.\<close>

definition remove_spaces :: "string \<Rightarrow> string" where
  "remove_spaces s = filter (\<lambda>c. c \<noteq> CHR '' '') s"

text \<open>\<open>s.split(d)\<close> for a one-character separator: never empty, one more part than separators.\<close>

fun split_sep :: "char \<Rightarrow> string \<Rightarrow> string list" where
  "split_sep d [] = [[]]"
| "split_sep d (c # cs) =
     (if c = d then [] # split_sep d cs
      else (case split_sep d cs of [] \<Rightarrow> [[c]] | p # ps \<Rightarrow> (c # p) # ps))"

text \<open>\<open>s.split(d, 1)\<close>: at most one split, at the first separator.\<close>

definition split_once :: "char \<Rightarrow> string \<Rightarrow> string list" where
  "split_once d s =
     (case dropWhile (\<lambda>c. c \<noteq> d) s of
        [] \<Rightarrow> [s]
      | _ # rest \<Rightarrow> [takeWhile (\<lambda>c. c \<noteq> d) s, rest])"

text \<open>
  The maximal runs of characters that are not separators; \<open>cur\<close> is the run being read.
  \<open>s.split()\<close> is the case where the separators are the whitespace characters.
\<close>

fun runs_from :: "(char \<Rightarrow> bool) \<Rightarrow> string \<Rightarrow> string \<Rightarrow> string list" where
  "runs_from sep cur [] = (if cur = [] then [] else [cur])"
| "runs_from sep cur (c # cs) =
     (if sep c then (if cur = [] then runs_from sep [] cs else cur # runs_from sep [] cs)
      else runs_from sep (cur @ [c]) cs)"

definition split_ws :: "string \<Rightarrow> string list" where
  "split_ws s = runs_from is_space [] s"

text \<open>\<open>sep.join(parts)\<close>.\<close>

fun join :: "string \<Rightarrow> string list \<Rightarrow> string" where
  "join sep [] = []"
| "join sep [p] = p"
| "join sep (p # q # ps) = p @ sep @ join sep (q # ps)"

text \<open>\<open>s.count(sub)\<close> for a non-empty \<open>sub\<close>: occurrences that do not overlap, from the left.\<close>

function count_sub :: "string \<Rightarrow> string \<Rightarrow> nat" where
  "count_sub sub s =
     (if sub = [] \<or> s = [] then 0
      else if prefix sub s then Suc (count_sub sub (drop (length sub) s))
      else count_sub sub (tl s))"
  by pat_completeness auto
termination
  by (relation "measure (\<lambda>(sub, s). length s)") (auto simp: prefix_def)

text \<open>The decimal rendering of a natural number, and \<open>f"{n:02d}"\<close> for \<open>n \<ge> 0\<close>.\<close>

definition digit_char :: "nat \<Rightarrow> char" where
  "digit_char d = ''0123456789'' ! (d mod 10)"

fun str_nat :: "nat \<Rightarrow> string" where
  "str_nat n = (if n < 10 then [digit_char n] else str_nat (n div 10) @ [digit_char (n mod 10)])"

definition pad2 :: "nat \<Rightarrow> string" where
  "pad2 n = (if n < 10 then CHR ''0'' # str_nat n else str_nat n)"

section \<open>Exceptions\<close>

datatype py_error =
    ZeroDivisionError
  | ValueError string
  | AttributeError
  | IndexError
  | CollaboratorError string

text \<open>
  \<open>str(e)\<close>, the text an exception handler prints. The messages of the exceptions that the
  program catches and only logs (\<open>AttributeError\<close>, \<open>IndexError\<close>, the \<open>ValueError\<close> of
  \<open>int\<close>) are abbreviated: no result depends on them.
\<close>

fun str_exc :: "py_error \<Rightarrow> string" where
  "str_exc ZeroDivisionError = ''division by zero''"
| "str_exc (ValueError msg) = msg"
| "str_exc AttributeError = ''NoneType object has no attribute group''"
| "str_exc IndexError = ''boolean index did not match indexed array''"
| "str_exc (CollaboratorError msg) = msg"

section \<open>Parsing integers\<close>

text \<open>
  \<open>re.search(r'\d+', s)\<close>: the first maximal run of digits, \<open>None\<close> when \<open>s\<close> has no digit.
\<close>

definition search_digits :: "string \<Rightarrow> string option" where
  "search_digits s =
     (case dropWhile (\<lambda>c. \<not> is_digit c) s of
        [] \<Rightarrow> None
      | c # cs \<Rightarrow> Some (takeWhile is_digit (c # cs)))"

definition nat_of_digits :: "string \<Rightarrow> nat" where
  "nat_of_digits ds = foldl (\<lambda>acc c. 10 * acc + digit_val c) 0 ds"

text \<open>
  \<open>int(s)\<close> on a string: surrounding whitespace is ignored, one sign is allowed, the digits
  may be grouped by single underscores, and a literal of more than 4300 digits is refused
  (the default limit of the interpreter). Everything else raises \<open>ValueError\<close>.
\<close>

definition max_str_digits :: nat where
  "max_str_digits = 4300"

fun digit_groups :: "string \<Rightarrow> bool" where
  "digit_groups [] = False"
| "digit_groups [c] = is_digit c"
| "digit_groups (c # d # cs) =
     (is_digit c \<and> (if d = CHR ''_'' then digit_groups cs else digit_groups (d # cs)))"

definition int_literal_error :: py_error where
  "int_literal_error = ValueError ''invalid literal for int() with base 10''"

definition int_digits_error :: py_error where
  "int_digits_error = ValueError ''Exceeds the limit (4300 digits) for integer string conversion''"

definition py_int_unsigned :: "string \<Rightarrow> py_error + nat" where
  "py_int_unsigned body =
     (if \<not> digit_groups body then Inl int_literal_error
      else if length (filter is_digit body) > max_str_digits then Inl int_digits_error
      else Inr (nat_of_digits (filter is_digit body)))"

definition py_int :: "string \<Rightarrow> py_error + int" where
  "py_int s =
     (case strip s of
        [] \<Rightarrow> Inl int_literal_error
      | c # cs \<Rightarrow>
          if c = CHR ''-'' then map_sum id (\<lambda>n. - int n) (py_int_unsigned cs)
          else if c = CHR ''+'' then map_sum id int (py_int_unsigned cs)
          else map_sum id int (py_int_unsigned (c # cs)))"

section \<open>The formatter: times and priorities\<close>

type_synonym slot = "int \<times> real"

text \<open>\<open>f"{hour:02d}"\<close> on an integer: the sign counts in the width.\<close>

definition fmt_02d :: "int \<Rightarrow> string" where
  "fmt_02d h = (if h < 0 then CHR ''-'' # str_nat (nat (- h)) else pad2 (nat h))"

text \<open>
  The loop of \<open>_get_priority\<close>: it returns at the first slot whose hour is the queried one.
\<close>

fun slot_priority :: "int \<Rightarrow> slot list \<Rightarrow> string option" where
  "slot_priority hour [] = None"
| "slot_priority hour ((slot_hour, prob) # rest) =
     (if slot_hour = hour then
        Some (if prob \<ge> 0.7 then ''HIGH'' else if prob \<ge> 0.4 then ''MEDIUM'' else ''LOW'')
      else slot_priority hour rest)"

definition static_priority :: "int \<Rightarrow> string" where
  "static_priority hour =
     (if 9 \<le> hour \<and> hour \<le> 11 then ''HIGH''
      else if 14 \<le> hour \<and> hour \<le> 16 then ''HIGH''
      else if hour < 8 \<or> hour > 20 then ''LOW''
      else ''MEDIUM'')"

definition get_priority :: "int \<Rightarrow> slot list \<Rightarrow> string" where
  "get_priority hour slots =
     (case slot_priority hour slots of Some p \<Rightarrow> p | None \<Rightarrow> static_priority hour)"

text \<open>
  The body of the \<open>try\<close> in \<open>_format_time\<close>, on the text already stripped of spaces and
  in upper case: \<open>re.search\<close> returning \<open>None\<close> makes \<open>.group()\<close> raise.
\<close>

definition format_time_parse :: "string \<Rightarrow> py_error + string" where
  "format_time_parse time_str =
     (case search_digits (hd (split_sep CHR '':'' time_str)) of
        None \<Rightarrow> Inl AttributeError
      | Some ds \<Rightarrow>
          (case py_int ds of
             Inl e \<Rightarrow> Inl e
           | Inr hour \<Rightarrow>
               Inr (fmt_02d
                      (if sublist ''PM'' time_str \<and> hour \<noteq> 12 then hour + 12
                       else if sublist ''AM'' time_str \<and> hour = 12 then 0
                       else hour) @ '':00'')))"

definition format_time :: "string \<Rightarrow> string" where
  "format_time s =
     (let time_str = upper (remove_spaces s) in
      if sublist ''AM'' time_str \<or> sublist ''PM'' time_str then
        (case format_time_parse time_str of Inr r \<Rightarrow> r | Inl e \<Rightarrow> time_str)
      else time_str)"

section \<open>The formatter: lines\<close>

text \<open>
  One match of the pattern \<open>\s*[\[\(][^)\]]*[\]\)]\s*\<close> at the head of a string, giving
  what follows the match: whitespace, an opening bracket, the longest run free of closing
  brackets, a closing bracket, whitespace. Every starred part is greedy and what follows
  it cannot start with a character of the part, so backtracking finds no other match.
\<close>

definition opener :: "char \<Rightarrow> bool" where
  "opener c = (c = CHR ''['' \<or> c = CHR ''('')"

definition closer :: "char \<Rightarrow> bool" where
  "closer c = (c = CHR '']'' \<or> c = CHR '')'')"

definition match_annotation :: "string \<Rightarrow> string option" where
  "match_annotation s =
     (case dropWhile is_space s of
        [] \<Rightarrow> None
      | c # cs \<Rightarrow>
          if opener c then
            (case dropWhile (\<lambda>x. \<not> closer x) cs of
               [] \<Rightarrow> None
             | _ # rest \<Rightarrow> Some (dropWhile is_space rest))
          else None)"

text \<open>\<open>re.sub(pattern, '', s)\<close>: the matches are removed from left to right.\<close>

function strip_annotations :: "string \<Rightarrow> string" where
  "strip_annotations s =
     (case s of
        [] \<Rightarrow> []
      | c # cs \<Rightarrow>
          (case match_annotation s of
             Some rest \<Rightarrow> strip_annotations rest
           | None \<Rightarrow> c # strip_annotations cs))"
  by pat_completeness auto
termination
proof (relation "measure length")
  show "wf (measure length)" by simp
next
  fix s :: string and c cs rest
  assume "s = c # cs" and m: "match_annotation s = Some rest"
  have dw: "length (dropWhile P xs) \<le> length xs" for P and xs :: string
    by (induction xs) auto
  from m obtain a as x r where
    a: "dropWhile is_space s = a # as" and
    b: "dropWhile (\<lambda>x. \<not> closer x) as = x # r" and
    c: "rest = dropWhile is_space r"
    by (auto simp: match_annotation_def split: list.splits if_splits)
  have "length rest \<le> length r" using c dw by simp
  also have "\<dots> < length as" using dw [of "\<lambda>x. \<not> closer x" as] b by simp
  also have "\<dots> < length s" using dw [of is_space s] a by simp
  finally show "(rest, s) \<in> measure length" by simp
next
  fix s :: string and c cs
  assume "s = c # cs"
  then show "(cs, s) \<in> measure length" by simp
qed

text \<open>\<open>s.replace('**', '')\<close>.\<close>

fun remove_emphasis :: "string \<Rightarrow> string" where
  "remove_emphasis (a # b # cs) =
     (if a = CHR ''*'' \<and> b = CHR ''*'' then remove_emphasis cs else a # remove_emphasis (b # cs))"
| "remove_emphasis cs = cs"

text \<open>
  The body of the \<open>try\<close> in \<open>process_time_block\<close>. The inner handler catches the
  \<open>ValueError\<close> of \<open>int\<close> only and sets the hour to 9.
\<close>

definition process_time_block_body :: "slot list \<Rightarrow> string \<Rightarrow> py_error + string" where
  "process_time_block_body time_slots line =
     (case split_once CHR '':'' line of
        [time_part, task_part] \<Rightarrow>
          (let time_str = format_time time_part;
               task = strip (strip_annotations task_part)
           in case (case py_int (hd (split_sep CHR '':'' time_str)) of
                      Inr h \<Rightarrow> Inr h
                    | Inl (ValueError msg) \<Rightarrow> Inr 9
                    | Inl e \<Rightarrow> Inl e) of
                Inl e \<Rightarrow> Inl e
              | Inr hour \<Rightarrow>
                  Inr (time_str @ '' - '' @ task @ '' (''
                       @ capitalize (get_priority hour time_slots) @ '')''))
      | _ \<Rightarrow> Inr line)"

definition process_time_block :: "slot list \<Rightarrow> string \<Rightarrow> string" where
  "process_time_block time_slots line =
     (case process_time_block_body time_slots line of Inr r \<Rightarrow> r | Inl e \<Rightarrow> line)"

definition days :: "string list" where
  "days = [''MONDAY'', ''TUESDAY'', ''WEDNESDAY'', ''THURSDAY'', ''FRIDAY'', ''SATURDAY'', ''SUNDAY'']"

text \<open>
  The state of the loop of \<open>_format_output\<close>: the lines emitted so far and the current
  section. \<open>skipped\<close> is the test of the \<open>continue\<close>; \<open>emit_line\<close> is the chain of
  \<open>if\<close>/\<open>elif\<close> after it. \<open>process_time_block\<close> catches every exception, so the handler
  around its call, which would append the line, is never entered.
\<close>

type_synonym fmt_state = "string list \<times> string option"

definition skipped :: "string \<Rightarrow> bool" where
  "skipped line = (line = [] \<or> sublist ''[Continue'' line \<or> sublist ''rest'' (lower line))"

definition emit_line :: "slot list \<Rightarrow> fmt_state \<Rightarrow> string \<Rightarrow> fmt_state" where
  "emit_line time_slots st line =
     (if sublist ''QUARTER'' (upper line) then
        (fst st @ ['''', line], Some ''QUARTER'')
      else if sublist ''WEEK'' (upper line) \<and> sublist ''-'' line then
        (fst st @ ['''', strip (remove_emphasis line)], Some ''WEEK'')
      else if list_ex (\<lambda>day. sublist day (upper line)) days then
        (fst st @ ['''', capitalize (strip (hd (split_sep CHR '':'' line)))], Some ''DAY'')
      else if sublist '':'' line then
        (let formatted_line = process_time_block time_slots line in
         if formatted_line \<noteq> line then (fst st @ [formatted_line], snd st) else st)
      else if \<not> list_ex (\<lambda>c. sublist c line) [''*'', ''['', '']''] then
        (fst st @ [line], snd st)
      else st)"

definition format_line :: "slot list \<Rightarrow> fmt_state \<Rightarrow> string \<Rightarrow> fmt_state" where
  "format_line time_slots st raw =
     (let line = strip raw in if skipped line then st else emit_line time_slots st line)"

definition format_lines :: "slot list \<Rightarrow> string list \<Rightarrow> string list" where
  "format_lines time_slots raws = fst (foldl (format_line time_slots) ([], None) raws)"

definition newline :: string where
  "newline = [CHR 0x0A]"

definition header :: "string \<Rightarrow> string \<Rightarrow> string \<Rightarrow> string \<Rightarrow> string" where
  "header duration goals hours_text considerations =
     join newline
       [''Schedule Overview'',
        ''----------------'',
        ''Duration: '' @ duration,
        ''Goals: '' @ goals,
        ''Hours per day: '' @ hours_text,
        ''Notes: '' @ considerations,
        ''----------------'' @ newline]"

text \<open>
  \<open>_format_output\<close>; \<open>hours_text\<close> is \<open>str(available_hours)\<close>, the rendering of a float,
  which is taken as given.
\<close>

definition format_output ::
    "string \<Rightarrow> string \<Rightarrow> string \<Rightarrow> string \<Rightarrow> string \<Rightarrow> slot list \<Rightarrow> string" where
  "format_output schedule duration goals hours_text considerations time_slots =
     header duration goals hours_text considerations
     @ join newline (format_lines time_slots (split_sep (CHR 0x0A) (strip schedule)))"

section \<open>The collaborators\<close>

text \<open>
  A two-dimensional array of the numeric library, as the classifier returns it.
\<close>

record matrix =
  nrows :: nat
  ncols :: nat
  entry :: "nat \<Rightarrow> nat \<Rightarrow> real"

datatype prompt_kind = Yearly | Monthly | Weekly

text \<open>
  What \<open>SimpleScheduler\<close> holds and calls without defining it: the three artefacts loaded
  at construction (each \<open>None\<close> when loading failed), the drafting call (the prompt built
  by the chosen strategy, sent to the language model, and the text of the answer, any of
  which may raise) and the rendering of a float by \<open>str\<close>.
\<close>

record env =
  rf_model :: "(real list \<Rightarrow> py_error + matrix) option"
  scaler :: "(real list \<Rightarrow> py_error + real list) option"
  feature_names :: "string list option"
  draft :: "prompt_kind \<Rightarrow> string \<Rightarrow> slot list \<Rightarrow> string \<Rightarrow> py_error + string"
  str_float :: "real \<Rightarrow> string"

section \<open>Feature extraction\<close>

definition keyword_categories :: "(string \<times> string list) list" where
  "keyword_categories =
     [(''is_creative'', [''design'', ''create'', ''develop'', ''build'', ''implement'']),
      (''is_analytical'', [''analyze'', ''research'', ''study'', ''investigate'', ''solve'']),
      (''is_planning'', [''plan'', ''organize'', ''schedule'', ''coordinate'', ''arrange'']),
      (''prefers_morning'', [''morning'', ''early'', ''am'']),
      (''prefers_afternoon'', [''afternoon'', ''lunch'', ''pm'']),
      (''prefers_evening'', [''evening'', ''night'', ''late'']),
      (''style_visual'', [''visual'', ''see'', ''watch'', ''look'']),
      (''style_auditory'', [''listen'', ''hear'', ''discuss'', ''talk'']),
      (''style_kinesthetic'', [''practice'', ''hands-on'', ''do'', ''experience''])]"

definition deadline_words :: "string list" where
  "deadline_words = [''deadline'', ''due'', ''urgent'', ''asap'', ''priority'']"

text \<open>\<open>float(b)\<close> of a truth value, and \<open>sum\<close> over truth values.\<close>

definition float_of_bool :: "bool \<Rightarrow> real" where
  "float_of_bool b = (if b then 1 else 0)"

definition count_true :: "bool list \<Rightarrow> nat" where
  "count_true bs = length (filter id bs)"

text \<open>
  The dictionary \<open>features\<close>, in insertion order. The division of \<open>task_diversity\<close> is
  the only operation that can raise.
\<close>

definition feature_dict :: "string \<Rightarrow> real \<Rightarrow> string \<Rightarrow> py_error + (string \<times> real) list" where
  "feature_dict goals available_hours considerations =
     (let start_hour = max 6 (24 - available_hours);
          end_hour = min 22 (start_hour + available_hours);
          words = split_ws (lower goals);
          unique_words = remdups words
      in if length words = 0 then Inl ZeroDivisionError
         else
           (let considerations_lower = lower considerations
            in Inr
              ([(''available_hours'', available_hours),
                (''start_hour'', start_hour),
                (''end_hour'', end_hour),
                (''duration_blocks'', available_hours / 2),
                (''task_complexity'', real (length words) / 10),
                (''task_diversity'', real (length unique_words) / real (length words))]
               @ map (\<lambda>(feature_name, keywords).
                        (feature_name,
                         float_of_bool
                           (list_ex (\<lambda>kw. kw \<in> set unique_words \<or> sublist kw considerations_lower)
                              keywords)))
                   keyword_categories
               @ [(''urgency_score'',
                   real (count_true (map (\<lambda>word. sublist word considerations_lower) deadline_words))
                     / real (length deadline_words)),
                  (''has_meetings'', float_of_bool (sublist ''meeting'' considerations_lower)),
                  (''has_breaks'', float_of_bool (sublist ''break'' considerations_lower)),
                  (''meeting_frequency'', real (count_sub ''meeting'' considerations_lower))])))"

text \<open>
  \<open>reindex(columns=names, fill_value=0)\<close> on the one-row frame: the value of each expected
  name, 0 for a name the dictionary lacks; the other entries are dropped.
\<close>

definition reindex :: "string list \<Rightarrow> (string \<times> real) list \<Rightarrow> real list" where
  "reindex names features =
     map (\<lambda>name. case map_of features name of Some v \<Rightarrow> v | None \<Rightarrow> 0) names"

definition extract_features :: "env \<Rightarrow> string \<Rightarrow> real \<Rightarrow> string \<Rightarrow> py_error + real list" where
  "extract_features e goals available_hours considerations =
     (case feature_dict goals available_hours considerations of
        Inl err \<Rightarrow> Inl err
      | Inr features \<Rightarrow>
          (let row = (case feature_names e of
                        Some names \<Rightarrow> reindex names features
                      | None \<Rightarrow> map snd features)
           in case scaler e of
                Some transform \<Rightarrow>
                  (case transform row of Inr scaled \<Rightarrow> Inr scaled | Inl err \<Rightarrow> Inr row)
              | None \<Rightarrow> Inr row))"

section \<open>Slot scoring\<close>

text \<open>\<open>xs[:n]\<close>: a negative \<open>n\<close> counts from the end.\<close>

definition slice_to :: "int \<Rightarrow> 'a list \<Rightarrow> 'a list" where
  "slice_to n xs = (if n \<ge> 0 then take (nat n) xs else take (nat (int (length xs) + n)) xs)"

text \<open>\<open>np.clip(p, 0, 1)\<close>.\<close>

definition clip01 :: "real \<Rightarrow> real" where
  "clip01 p = min (max p 0) 1"

definition hour_mask :: "int \<Rightarrow> bool" where
  "hour_mask h = (5 \<le> h \<and> h \<le> 22)"

definition adjustment :: "int \<Rightarrow> real" where
  "adjustment h =
     (if 9 \<le> h \<and> h \<le> 11 then 1.2 else 1.0)
     * (if 14 \<le> h \<and> h \<le> 16 then 1.1 else 1.0)
     * (if h < 7 \<or> h > 20 then 0.8 else 1.0)"

text \<open>
  \<open>sorted(slots, key=lambda x: x[1], reverse=True)\<close>: descending by score, and slots of
  equal score keep their order.
\<close>

definition sort_desc :: "slot list \<Rightarrow> slot list" where
  "sort_desc slots = sort_key (\<lambda>x. - snd x) slots"

text \<open>
  The body of the \<open>try\<close> in \<open>predict_optimal_slots\<close>. Indexing the probabilities with
  the mask over the 24 hours raises unless there are 24 of them.
\<close>

definition predict_body :: "(real list \<Rightarrow> py_error + matrix) \<Rightarrow> real list \<Rightarrow> py_error + slot list option" where
  "predict_body predict_proba features =
     (case predict_proba features of
        Inl err \<Rightarrow> Inl err
      | Inr predictions \<Rightarrow>
          if nrows predictions = 0 then Inr None
          else
            (let hours = map int [0..<24];
                 probs = (if ncols predictions > 1
                          then map (\<lambda>i. entry predictions i 1) [0..<nrows predictions]
                          else concat (map (\<lambda>i. map (entry predictions i) [0..<ncols predictions])
                                         [0..<nrows predictions]))
             in if length probs \<noteq> length hours then Inl IndexError
                else
                  (let masked = filter (\<lambda>(h, p). hour_mask h) (zip hours probs);
                       valid_hours = map fst masked;
                       adjusted = map (\<lambda>(h, p). clip01 (p * adjustment h)) masked
                   in Inr (Some (sort_desc (zip valid_hours adjusted))))))"

definition predict_optimal_slots :: "env \<Rightarrow> real list \<Rightarrow> slot list option" where
  "predict_optimal_slots e features =
     (case rf_model e of
        None \<Rightarrow> None
      | Some predict_proba \<Rightarrow>
          (case predict_body predict_proba features of Inr r \<Rightarrow> r | Inl err \<Rightarrow> None))"

text \<open>\<open>int(x)\<close> on a float: the fraction is dropped, towards zero.\<close>

definition int_of_float :: "real \<Rightarrow> int" where
  "int_of_float x = (if x \<ge> 0 then \<lfloor>x\<rfloor> else \<lceil>x\<rceil>)"

definition hours_needed :: "real \<Rightarrow> int" where
  "hours_needed available_hours = min (int_of_float available_hours) 12"

definition time_preferences :: "(string list \<times> int) list" where
  "time_preferences =
     [([''morning'', ''early'', ''am''], 8),
      ([''afternoon'', ''lunch'', ''pm''], 12),
      ([''evening'', ''night'', ''late''], 16)]"

text \<open>
  The loop over \<open>time_preferences\<close>, on the pair of \<open>start_hour\<close> and
  \<open>max_preference_score\<close>.
\<close>

definition preference_step :: "string \<Rightarrow> int \<times> nat \<Rightarrow> string list \<times> int \<Rightarrow> int \<times> nat" where
  "preference_step considerations_lower st pref =
     (let score = count_true (map (\<lambda>word. sublist word considerations_lower) (fst pref))
      in if score > snd st then (snd pref, score) else st)"

definition preferred_start :: "string \<Rightarrow> int" where
  "preferred_start considerations_lower =
     fst (foldl (preference_step considerations_lower) (9, 0) time_preferences)"

text \<open>
  The entries of \<open>time_adjustments\<close>: a window of hours with its score, or the pair of
  edges (the entry whose first component is a tuple).
\<close>

datatype time_adjustment =
    Window int int real
  | Edges "int \<times> int" "int \<times> int" real

definition time_adjustments :: "time_adjustment list" where
  "time_adjustments = [Window 9 11 0.9, Window 14 16 0.8, Edges (0, 7) (20, 24) 0.6]"

fun adjust :: "int list \<Rightarrow> real list \<Rightarrow> time_adjustment \<Rightarrow> real list" where
  "adjust slot_hours probs (Edges start end factor) =
     map (\<lambda>(h, p). if h < snd start \<or> h > fst end then factor else p) (zip slot_hours probs)"
| "adjust slot_hours probs (Window start end factor) =
     map (\<lambda>(h, p). if h \<ge> start \<and> h \<le> end then factor else p) (zip slot_hours probs)"

text \<open>
  The rule-based branch of \<open>generate_dynamic_schedule\<close>. \<open>np.full\<close> raises on a negative
  length; \<open>np.arange\<close> of one is empty.
\<close>

definition negative_dimensions :: py_error where
  "negative_dimensions = ValueError ''negative dimensions are not allowed''"

definition fallback_slots :: "string \<Rightarrow> int \<Rightarrow> py_error + slot list" where
  "fallback_slots considerations n =
     (let start_hour = preferred_start (lower considerations);
          hours = map int [0..<nat n];
          slot_hours = map (\<lambda>i. (start_hour + i) mod 24) hours
      in if n < 0 then Inl negative_dimensions
         else
           (let base_probs = replicate (nat n) (0.7 :: real);
                probs = foldl (adjust slot_hours) base_probs time_adjustments
            in Inr (zip slot_hours probs)))"

definition normalized_slots :: "slot list \<Rightarrow> int \<Rightarrow> slot list" where
  "normalized_slots optimal_slots n =
     (let total_prob = sum_list (map snd (slice_to n optimal_slots))
      in if total_prob > 0
         then map (\<lambda>(hour, prob). (hour, prob / total_prob)) (slice_to n optimal_slots)
         else slice_to n optimal_slots)"

definition generate_dynamic_schedule ::
    "env \<Rightarrow> string \<Rightarrow> string \<Rightarrow> real \<Rightarrow> string \<Rightarrow> py_error + slot list" where
  "generate_dynamic_schedule e duration goals available_hours considerations =
     (case extract_features e goals available_hours considerations of
        Inl err \<Rightarrow> Inl err
      | Inr features \<Rightarrow>
          (case predict_optimal_slots e features of
             None \<Rightarrow> fallback_slots considerations (hours_needed available_hours)
           | Some optimal_slots \<Rightarrow>
               Inr (normalized_slots optimal_slots (hours_needed available_hours))))"

section \<open>The entry points\<close>

definition prompt_method :: "string \<Rightarrow> prompt_kind" where
  "prompt_method duration_lower =
     (if sublist ''year'' duration_lower then Yearly
      else if sublist ''month'' duration_lower then Monthly
      else Weekly)"

definition generate_schedule ::
    "env \<Rightarrow> string \<Rightarrow> string \<Rightarrow> real \<Rightarrow> string \<Rightarrow> py_error + string" where
  "generate_schedule e duration goals available_hours considerations =
     (case generate_dynamic_schedule e duration goals available_hours considerations of
        Inl err \<Rightarrow> Inl err
      | Inr time_slots \<Rightarrow>
          (case draft e (prompt_method (lower duration)) goals time_slots considerations of
             Inl err \<Rightarrow> Inl (ValueError (''Failed to generate schedule: '' @ str_exc err))
           | Inr text \<Rightarrow>
               Inr (format_output text duration goals (str_float e available_hours)
                      considerations time_slots)))"

text \<open>\<open>create_schedule\<close> of \<open>app.py\<close>: every exception becomes an error text.\<close>

definition create_schedule :: "env \<Rightarrow> string \<Rightarrow> string \<Rightarrow> real \<Rightarrow> string \<Rightarrow> string" where
  "create_schedule e duration goals available_hours considerations =
     (if duration = [] \<or> goals = [] \<or> considerations = [] then
        ''Error: Please fill in all fields''
      else
        (case generate_schedule e duration goals available_hours considerations of
           Inr schedule \<Rightarrow> schedule
         | Inl err \<Rightarrow> ''Error: '' @ str_exc err))"

section \<open>Auxiliary notions for the properties\<close>

text \<open>
  The score of one slot of hour \<open>h\<close> after one entry of \<open>time_adjustments\<close>, when it was
  \<open>p\<close> before: what \<open>adjust\<close> does at one position of the arrays. Folding it over the
  entries applies them in order, so the last entry that matches decides.
\<close>

definition override :: "time_adjustment \<Rightarrow> int \<Rightarrow> real \<Rightarrow> real" where
  "override a h p =
     (case a of
        Window start end factor \<Rightarrow> if h \<ge> start \<and> h \<le> end then factor else p
      | Edges start end factor \<Rightarrow> if h < snd start \<or> h > fst end then factor else p)"

text \<open>
  Two environments for concrete runs: one without classifier, whose drafting call answers
  a fixed text, and one whose classifier gives every hour the same probability \<open>q\<close>
  and whose drafting call fails.
\<close>

definition fallback_env :: "string \<Rightarrow> string \<Rightarrow> env" where
  "fallback_env text hours_text =
     \<lparr>rf_model = None, scaler = None, feature_names = None,
      draft = (\<lambda>kind goals slots considerations. Inr text),
      str_float = (\<lambda>x. hours_text)\<rparr>"


text \<open>
  The reading of C3, from the words of the specification and not from the code: a text
  contains a word when the word is one of its maximal runs of letters, digits and
  underscores.
\<close>

definition word_char :: "char \<Rightarrow> bool" where
  "word_char c = (c \<in> set (lower_letters @ upper_letters @ ''0123456789_''))"

definition spec_contains_word :: "string \<Rightarrow> string \<Rightarrow> bool" where
  "spec_contains_word w s = (w \<in> set (runs_from (\<lambda>c. \<not> word_char c) [] s))"

section \<open>Properties of the priority lookup\<close>

lemma slot_priority_first:
  "hour \<notin> fst ` set pre \<Longrightarrow>
   slot_priority hour (pre @ (hour, prob) # post) =
     Some (if prob \<ge> 0.7 then ''HIGH'' else if prob \<ge> 0.4 then ''MEDIUM'' else ''LOW'')"
  by (induction pre) auto

lemma slot_priority_none: "hour \<notin> fst ` set slots \<Longrightarrow> slot_priority hour slots = None"
  by (induction slots) auto

text \<open>
  C9. When a slot of the sequence has the queried hour, the priority comes from the first
  such slot (no slot before it has that hour) by the thresholds: HIGH from 0.7, MEDIUM
  from 0.4 and below 0.7, LOW below 0.4. The static rule of the time of day is used only
  when no slot has the queried hour, which includes the empty sequence.
\<close>

theorem get_priority_first_match:
  "(hour \<notin> fst ` set pre \<longrightarrow>
      get_priority hour (pre @ (hour, prob) # post) =
        (if prob \<ge> 0.7 then ''HIGH'' else if prob \<ge> 0.4 then ''MEDIUM'' else ''LOW''))
   \<and> (hour \<notin> fst ` set slots \<longrightarrow> get_priority hour slots = static_priority hour)"
  by (simp add: get_priority_def slot_priority_first slot_priority_none)

text \<open>
  At hour 9 the first matching slot has score 0.5, a later one 0.9, and the static rule
  would say HIGH: the answer is MEDIUM. At hour 7 no slot matches and the static rule
  answers LOW.
\<close>

theorem get_priority_first_match_witness:
  "(9::int) \<notin> fst ` set [(8, 0.9::real)]
   \<and> get_priority 9 ([(8, 0.9)] @ (9, 0.5) # [(9, 0.9)]) = ''MEDIUM''
   \<and> static_priority 9 = ''HIGH''
   \<and> (7::int) \<notin> fst ` set [(8, 0.9::real), (9, 0.5), (9, 0.9)]
   \<and> get_priority 7 [(8, 0.9), (9, 0.5), (9, 0.9)] = ''LOW''"
  using get_priority_first_match [of 9 "[(8, 0.9)]" "0.5" "[(9, 0.9)]" "[]"]
        get_priority_first_match [of 7 "[]" 0 "[]" "[(8, 0.9), (9, 0.5), (9, 0.9)]"]
  by (simp add: static_priority_def)

section \<open>Properties of the slot scorer\<close>

lemma adjust_override:
  "adjust hs ps a = map (\<lambda>(h, p). override a h p) (zip hs ps)"
  by (cases a) (auto simp: override_def)

lemma map2_snd: "length ps = length hs \<Longrightarrow> map (\<lambda>(h, p). p) (zip hs ps) = ps"
  by (induction ps hs rule: list_induct2) auto

lemma zip_map2:
  "zip hs (map (\<lambda>(h, p). F h p) (zip hs ps)) = map (\<lambda>(h, p). (h, F h p)) (zip hs ps)"
  by (induction hs ps rule: list_induct2') auto

lemma foldl_adjust:
  "length ps = length hs \<Longrightarrow>
   foldl (adjust hs) ps adjs = map (\<lambda>(h, p). foldl (\<lambda>p a. override a h p) p adjs) (zip hs ps)"
proof (induction adjs arbitrary: ps)
  case Nil
  then show ?case by (simp add: map2_snd)
next
  case (Cons a adjs)
  have len: "length (adjust hs ps a) = length hs"
    using Cons.prems by (simp add: adjust_override)
  have "foldl (adjust hs) (adjust hs ps a) adjs =
          map (\<lambda>(h, p). foldl (\<lambda>p a. override a h p) p adjs) (zip hs (adjust hs ps a))"
    by (rule Cons.IH [OF len])
  also have "zip hs (adjust hs ps a) = map (\<lambda>(h, p). (h, override a h p)) (zip hs ps)"
    unfolding adjust_override by (rule zip_map2)
  finally show ?case by (simp add: comp_def case_prod_unfold)
qed

lemma zip_map2_replicate:
  "zip hs (map (\<lambda>(h, p). F h p) (zip hs (replicate (length hs) c))) = map (\<lambda>h. (h, F h c)) hs"
  by (induction hs) auto

lemma fallback_slots_eq:
  "0 \<le> n \<Longrightarrow>
   fallback_slots considerations n =
     Inr (map (\<lambda>i. ((preferred_start (lower considerations) + int i) mod 24,
                     foldl (\<lambda>p a. override a ((preferred_start (lower considerations) + int i) mod 24) p)
                       0.7 time_adjustments))
            [0..<nat n])"
proof -
  assume n: "0 \<le> n"
  define hs where "hs = map (\<lambda>i. (preferred_start (lower considerations) + i) mod 24) (map int [0..<nat n])"
  have len: "length hs = nat n" by (simp add: hs_def)
  have "fallback_slots considerations n =
          Inr (zip hs (foldl (adjust hs) (replicate (length hs) 0.7) time_adjustments))"
    using n by (simp add: fallback_slots_def Let_def hs_def)
  also have "\<dots> = Inr (map (\<lambda>h. (h, foldl (\<lambda>p a. override a h p) 0.7 time_adjustments)) hs)"
    by (simp add: foldl_adjust zip_map2_replicate)
  finally show ?thesis by (simp add: hs_def comp_def)
qed

lemma fallback_score_closed:
  "foldl (\<lambda>p a. override a h p) 0.7 time_adjustments =
     (if h < 7 \<or> h > 20 then 0.6 else if 14 \<le> h \<and> h \<le> 16 then 0.8
      else if 9 \<le> h \<and> h \<le> 11 then 0.9 else 0.7)"
  by (simp add: time_adjustments_def override_def)

lemma feature_dict_tokens:
  "split_ws (lower goals) \<noteq> [] \<Longrightarrow> \<exists>features. feature_dict goals ah cons = Inr features"
  by (simp add: feature_dict_def Let_def)

lemma extract_features_tokens:
  "split_ws (lower goals) \<noteq> [] \<Longrightarrow> \<exists>features. extract_features e goals ah cons = Inr features"
  using feature_dict_tokens [of goals ah cons]
  by (auto simp: extract_features_def Let_def split: option.splits sum.splits)


lemma length_slice_to: "0 \<le> n \<Longrightarrow> int (length (slice_to n xs)) \<le> n"
  by (simp add: slice_to_def)

lemma length_normalized_slots:
  "length (normalized_slots opt n) = length (slice_to n opt)"
  by (simp add: normalized_slots_def Let_def)


lemma hours_needed_floor: "0 < ah \<Longrightarrow> hours_needed ah = min \<lfloor>ah\<rfloor> 12"
  by (simp add: hours_needed_def int_of_float_def)

lemma hours_needed_nonneg: "0 < ah \<Longrightarrow> 0 \<le> hours_needed ah"
  by (simp add: hours_needed_def int_of_float_def)

text \<open>
  C2, as the code has it. For available hours in \<open>(0, 24]\<close> the number of slots asked
  for is \<open>min(int(available_hours), 12)\<close>, the whole part of the hours capped at 12, and
  not \<open>min(available_hours, 12)\<close>. When the goals have a token, slot generation returns,
  on either path, at most that many slots; and when the classifier gives nothing, the
  slots are the consecutive hours from the preferred start hour, modulo 24.
\<close>

theorem hours_needed_slots:
  assumes "0 < available_hours" and "available_hours \<le> 24" and "split_ws (lower goals) \<noteq> []"
  shows "hours_needed available_hours = min \<lfloor>available_hours\<rfloor> 12
     \<and> (\<exists>features slots.
           extract_features e goals available_hours considerations = Inr features
         \<and> generate_dynamic_schedule e duration goals available_hours considerations = Inr slots
         \<and> int (length slots) \<le> hours_needed available_hours
         \<and> (predict_optimal_slots e features = None \<longrightarrow>
              map fst slots =
                map (\<lambda>i. (preferred_start (lower considerations) + int i) mod 24)
                  [0..<nat (hours_needed available_hours)]))"
proof -
  from assms(3) obtain features where
    f: "extract_features e goals available_hours considerations = Inr features"
    using extract_features_tokens by blast
  define n where "n = hours_needed available_hours"
  have n0: "0 \<le> n"
    using hours_needed_nonneg [OF assms(1)] by (simp only: n_def)
  have "\<exists>slots.
          generate_dynamic_schedule e duration goals available_hours considerations = Inr slots
        \<and> int (length slots) \<le> n
        \<and> (predict_optimal_slots e features = None \<longrightarrow>
             map fst slots =
               map (\<lambda>i. (preferred_start (lower considerations) + int i) mod 24) [0..<nat n])"
  proof (cases "predict_optimal_slots e features")
    case None
    then have "generate_dynamic_schedule e duration goals available_hours considerations =
                 fallback_slots considerations n"
      by (simp add: generate_dynamic_schedule_def f n_def)
    then show ?thesis
      using n0 by (simp add: fallback_slots_eq comp_def)
  next
    case (Some opt)
    then have "generate_dynamic_schedule e duration goals available_hours considerations =
                 Inr (normalized_slots opt n)"
      by (simp add: generate_dynamic_schedule_def f n_def)
    then show ?thesis
      using Some length_slice_to [OF n0, of opt] by (simp add: length_normalized_slots)
  qed
  then obtain slots where
    s1: "generate_dynamic_schedule e duration goals available_hours considerations = Inr slots" and
    s2: "int (length slots) \<le> hours_needed available_hours" and
    s3: "predict_optimal_slots e features = None \<longrightarrow>
           map fst slots =
             map (\<lambda>i. (preferred_start (lower considerations) + int i) mod 24)
               [0..<nat (hours_needed available_hours)]"
    unfolding n_def by (elim exE conjE)
  show ?thesis
  proof (intro conjI exI)
    show "hours_needed available_hours = min \<lfloor>available_hours\<rfloor> 12"
      by (rule hours_needed_floor [OF assms(1)])
  qed (rule f s1 s2 s3)+
qed

text \<open>
  With 2.5 hours, no classifier and an evening preference: two slots, at 16 and 17.
\<close>

theorem hours_needed_slots_witness:
  "(0::real) < 5 / 2 \<and> (5 / 2 :: real) \<le> 24 \<and> split_ws (lower ''study'') \<noteq> []
   \<and> hours_needed (5 / 2) = 2
   \<and> generate_dynamic_schedule (fallback_env ''9am: Study'' ''2.5'') ''1 week'' ''study'' (5 / 2)
        ''late evening'' = Inr [(16, 0.8), (17, 0.7)]
   \<and> (\<exists>features slots.
         extract_features (fallback_env ''9am: Study'' ''2.5'') ''study'' (5 / 2) ''late evening''
           = Inr features
       \<and> generate_dynamic_schedule (fallback_env ''9am: Study'' ''2.5'') ''1 week'' ''study''
           (5 / 2) ''late evening'' = Inr slots
       \<and> int (length slots) \<le> hours_needed (5 / 2)
       \<and> (predict_optimal_slots (fallback_env ''9am: Study'' ''2.5'') features = None \<longrightarrow>
            map fst slots =
              map (\<lambda>i. (preferred_start (lower ''late evening'') + int i) mod 24)
                [0..<nat (hours_needed (5 / 2))]))"
proof -
  have a: "(0::real) < 5 / 2" and b: "(5 / 2 :: real) \<le> 24" by simp_all
  have c: "split_ws (lower ''study'') \<noteq> []" by code_simp
  have d: "hours_needed (5 / 2) = 2" by (simp add: hours_needed_def int_of_float_def)
  have g: "generate_dynamic_schedule (fallback_env ''9am: Study'' ''2.5'') ''1 week'' ''study'' (5 / 2)
        ''late evening'' = Inr [(16, 0.8), (17, 0.7)]" by code_simp
  show ?thesis
    using hours_needed_slots [OF a b c, of "fallback_env ''9am: Study'' ''2.5''" "''late evening''" "''1 week''"]
          a b c d g
    by simp
qed

text \<open>
  C2 as stated fails at 2.5 hours, a value the slider of the form produces: the count
  is 2, and \<open>min(2.5, 12)\<close> is 2.5.
\<close>

theorem hours_needed_counterexample:
  "(0::real) < 5 / 2 \<and> (5 / 2 :: real) \<le> 24 \<and> real_of_int (hours_needed (5 / 2)) \<noteq> min (5 / 2) 12"
  by (simp add: hours_needed_def int_of_float_def)

lemma generate_fallback:
  "extract_features e goals ah cons = Inr features \<Longrightarrow>
   predict_optimal_slots e features = None \<Longrightarrow>
   generate_dynamic_schedule e duration goals ah cons = fallback_slots cons (hours_needed ah)"
  by (simp add: generate_dynamic_schedule_def)


lemma fallback_slots_member:
  assumes "fallback_slots cons n = Inr slots" and "(h, p) \<in> set slots"
  shows "0 \<le> h \<and> h < 24 \<and> p = foldl (\<lambda>p a. override a h p) 0.7 time_adjustments"
proof -
  have n: "0 \<le> n"
    using assms(1) by (auto simp: fallback_slots_def Let_def split: if_splits)
  from assms show ?thesis
    unfolding fallback_slots_eq [OF n] by auto
qed

text \<open>
  C5, as the code has it. On the rule-based path (the classifier gives nothing) the score
  of every slot is 0.7 overridden by the entries of \<open>time_adjustments\<close> in their order,
  morning (0.9 on hours 9 to 11), afternoon (0.8 on hours 14 to 16), edge (0.6), the last
  matching entry deciding. Hours 9 to 11 and 14 to 16 score more than 0.7. The edge test
  is \<open>hour < 7 or hour > 20\<close>: the hours that score 0.6 are those outside \<open>[7, 20]\<close>,
  and hour 20 itself keeps 0.7.
\<close>

theorem fallback_scores:
  assumes "extract_features e goals available_hours considerations = Inr features"
    and "predict_optimal_slots e features = None"
    and "generate_dynamic_schedule e duration goals available_hours considerations = Inr slots"
    and "(h, p) \<in> set slots"
  shows "p = foldl (\<lambda>p a. override a h p) 0.7
               [Window 9 11 0.9, Window 14 16 0.8, Edges (0, 7) (20, 24) 0.6]
       \<and> p = (if h < 7 \<or> h > 20 then 0.6
              else if 14 \<le> h \<and> h \<le> 16 then 0.8
              else if 9 \<le> h \<and> h \<le> 11 then 0.9
              else 0.7)
       \<and> (9 \<le> h \<and> h \<le> 11 \<or> 14 \<le> h \<and> h \<le> 16 \<longrightarrow> p > 0.7)
       \<and> (h < 7 \<or> h > 20 \<longrightarrow> p = 0.6)"
proof -
  have "fallback_slots considerations (hours_needed available_hours) = Inr slots"
    using assms(1-3) by (simp add: generate_fallback)
  then have p: "p = foldl (\<lambda>p a. override a h p) 0.7 time_adjustments"
    using assms(4) fallback_slots_member by blast
  have c: "p = (if h < 7 \<or> h > 20 then 0.6
              else if 14 \<le> h \<and> h \<le> 16 then 0.8
              else if 9 \<le> h \<and> h \<le> 11 then 0.9
              else 0.7)"
    unfolding p by (rule fallback_score_closed)
  have "p = foldl (\<lambda>p a. override a h p) 0.7
               [Window 9 11 0.9, Window 14 16 0.8, Edges (0, 7) (20, 24) 0.6]"
    using p by (simp only: time_adjustments_def)
  moreover have "9 \<le> h \<and> h \<le> 11 \<or> 14 \<le> h \<and> h \<le> 16 \<longrightarrow> p > 0.7"
    using c by auto
  moreover have "h < 7 \<or> h > 20 \<longrightarrow> p = 0.6"
    using c by auto
  ultimately show ?thesis using c by blast
qed

text \<open>
  Five hours with an evening preference: the slot of hour 16 scores 0.8.
\<close>

theorem fallback_scores_witness:
  "extract_features (fallback_env ''9am: Study'' ''5.0'') ''study'' 5 ''late evening''
     = Inr [5, 19, 22, 5 / 2, 1 / 10, 1, 0, 1, 0, 0, 0, 1, 0, 0, 0, 0, 0, 0, 0]
   \<and> predict_optimal_slots (fallback_env ''9am: Study'' ''5.0'')
        [5, 19, 22, 5 / 2, 1 / 10, 1, 0, 1, 0, 0, 0, 1, 0, 0, 0, 0, 0, 0, 0] = None
   \<and> generate_dynamic_schedule (fallback_env ''9am: Study'' ''5.0'') ''1 week'' ''study'' 5
        ''late evening'' = Inr [(16, 0.8), (17, 0.7), (18, 0.7), (19, 0.7), (20, 0.7)]
   \<and> (0.8 :: real) = foldl (\<lambda>p a. override a 16 p) 0.7
               [Window 9 11 0.9, Window 14 16 0.8, Edges (0, 7) (20, 24) 0.6]
   \<and> (0.8 :: real) > 0.7"
proof -
  let ?e = "fallback_env ''9am: Study'' ''5.0''"
  let ?f = "[5, 19, 22, 5 / 2, 1 / 10, 1, 0, 1, 0, 0, 0, 1, 0, 0, 0, 0, 0, 0, 0] :: real list"
  let ?s = "[(16, 0.8), (17, 0.7), (18, 0.7), (19, 0.7), (20, 0.7)] :: slot list"
  have a: "extract_features ?e ''study'' 5 ''late evening'' = Inr ?f" by code_simp
  have b: "predict_optimal_slots ?e ?f = None" by code_simp
  have c: "generate_dynamic_schedule ?e ''1 week'' ''study'' 5 ''late evening'' = Inr ?s"
    by code_simp
  have d: "(16, 0.8) \<in> set ?s" by simp
  show ?thesis
    using fallback_scores [OF a b c d] a b c by simp
qed

text \<open>
  C5 as stated fails at hour 20, which is outside \<open>[7, 20)\<close> and scores 0.7: five hours
  from the evening start 16 reach it.
\<close>

theorem fallback_scores_counterexample:
  "generate_dynamic_schedule (fallback_env ''9am: Study'' ''5.0'') ''1 week'' ''study'' 5
     ''late evening'' = Inr [(16, 0.8), (17, 0.7), (18, 0.7), (19, 0.7), (20, 0.7)]
   \<and> \<not> (7 \<le> (20::int) \<and> (20::int) < 20) \<and> (0.7 :: real) \<noteq> 0.6"
proof -
  have "generate_dynamic_schedule (fallback_env ''9am: Study'' ''5.0'') ''1 week'' ''study'' 5
     ''late evening'' = Inr [(16, 0.8), (17, 0.7), (18, 0.7), (19, 0.7), (20, 0.7)]"
    by code_simp
  then show ?thesis by simp
qed



section \<open>Properties of the entry points\<close>

lemma runs_from_blank:
  "\<forall>c \<in> set s. is_space c \<Longrightarrow> runs_from is_space cur s = (if cur = [] then [] else [cur])"
  by (induction s arbitrary: cur) auto

lemma lower_char_space: "is_space (lower_char c) = is_space c"
  by (simp add: lower_char_def is_space_def upper_letters_def lower_letters_def)

lemma split_ws_blank: "\<forall>c \<in> set goals. is_space c \<Longrightarrow> split_ws (lower goals) = []"
  by (simp add: split_ws_def runs_from_blank lower_def lower_char_space)

text \<open>
  C4, what the code does. Goals made of whitespace only have no token, and the division
  of \<open>task_diversity\<close> by the number of tokens raises: feature extraction fails with
  \<open>ZeroDivisionError\<close>, no feature is defined, slot generation fails with it, and
  \<open>create_schedule\<close>, whose test of the fields lets such goals pass unless they are the
  empty string, answers with the error text.
\<close>

theorem blank_goals_division_by_zero:
  "list_all is_space goals \<longrightarrow>
     feature_dict goals available_hours considerations = Inl ZeroDivisionError
   \<and> extract_features e goals available_hours considerations = Inl ZeroDivisionError
   \<and> generate_dynamic_schedule e duration goals available_hours considerations
       = Inl ZeroDivisionError
   \<and> (duration \<noteq> [] \<and> goals \<noteq> [] \<and> considerations \<noteq> [] \<longrightarrow>
        create_schedule e duration goals available_hours considerations
          = ''Error: division by zero'')"
proof (intro impI)
  assume "list_all is_space goals"
  then have w: "split_ws (lower goals) = []" by (simp add: split_ws_blank list_all_iff)
  have f: "feature_dict goals available_hours considerations = Inl ZeroDivisionError"
    by (simp add: feature_dict_def Let_def w)
  then have x: "extract_features e goals available_hours considerations = Inl ZeroDivisionError"
    by (simp add: extract_features_def)
  then have g: "generate_dynamic_schedule e duration goals available_hours considerations
       = Inl ZeroDivisionError"
    by (simp add: generate_dynamic_schedule_def)
  then have "duration \<noteq> [] \<and> goals \<noteq> [] \<and> considerations \<noteq> [] \<longrightarrow>
        create_schedule e duration goals available_hours considerations
          = ''Error: division by zero''"
    by (simp add: create_schedule_def generate_schedule_def)
  with f x g show "feature_dict goals available_hours considerations = Inl ZeroDivisionError
   \<and> extract_features e goals available_hours considerations = Inl ZeroDivisionError
   \<and> generate_dynamic_schedule e duration goals available_hours considerations
       = Inl ZeroDivisionError
   \<and> (duration \<noteq> [] \<and> goals \<noteq> [] \<and> considerations \<noteq> [] \<longrightarrow>
        create_schedule e duration goals available_hours considerations
          = ''Error: division by zero'')" by blast
qed

text \<open>
  Goals of three spaces.
\<close>

theorem blank_goals_division_by_zero_witness:
  "list_all is_space ''   ''
   \<and> extract_features (fallback_env ''9am: Study'' ''8.0'') ''   '' 8 ''none''
       = Inl ZeroDivisionError
   \<and> create_schedule (fallback_env ''9am: Study'' ''8.0'') ''1 week'' ''   '' 8 ''none''
       = ''Error: division by zero''"
proof -
  have a: "list_all is_space ''   ''" by (simp add: is_space_def)
  show ?thesis
    using blank_goals_division_by_zero
            [of "''   ''" 8 "''none''" "fallback_env ''9am: Study'' ''8.0''" "''1 week''"] a
    by simp
qed

lemma hours_needed_zero: "- 1 < ah \<Longrightarrow> ah < 1 \<Longrightarrow> hours_needed ah = 0"
  by (auto simp: hours_needed_def int_of_float_def) linarith+

lemma hours_needed_negative: "ah \<le> - 1 \<Longrightarrow> hours_needed ah < 0"
  by (auto simp: hours_needed_def int_of_float_def)

text \<open>
  C7, as the code has it. The core has no check of the available hours. Without
  classifier and with goals that have a token: for hours strictly between -1 and 1, zero
  among them, the count of slots is 0, slot generation returns the empty list, and the
  request goes on to the drafting call and the formatter like any other; for hours of -1
  or less the array constructor refuses the negative length and \<open>create_schedule\<close>
  answers with that error text.
\<close>

theorem hours_not_validated:
  assumes "duration \<noteq> []" and "goals \<noteq> []" and "considerations \<noteq> []"
    and "split_ws (lower goals) \<noteq> []" and "rf_model e = None"
  shows "(- 1 < available_hours \<and> available_hours < 1 \<longrightarrow>
            generate_dynamic_schedule e duration goals available_hours considerations = Inr []
          \<and> create_schedule e duration goals available_hours considerations =
              (case draft e (prompt_method (lower duration)) goals [] considerations of
                 Inr text \<Rightarrow>
                   format_output text duration goals (str_float e available_hours)
                     considerations []
               | Inl err \<Rightarrow> ''Error: Failed to generate schedule: '' @ str_exc err))
       \<and> (available_hours \<le> - 1 \<longrightarrow>
            create_schedule e duration goals available_hours considerations
              = ''Error: negative dimensions are not allowed'')"
proof -
  from assms(4) obtain features where
    f: "extract_features e goals available_hours considerations = Inr features"
    using extract_features_tokens by blast
  have p: "predict_optimal_slots e features = None"
    by (simp add: predict_optimal_slots_def assms(5))
  have g: "generate_dynamic_schedule e duration goals available_hours considerations
             = fallback_slots considerations (hours_needed available_hours)"
    by (rule generate_fallback [OF f p])
  have zero: "generate_dynamic_schedule e duration goals available_hours considerations = Inr []"
    if "- 1 < available_hours" "available_hours < 1"
    unfolding g hours_needed_zero [OF that] by (simp add: fallback_slots_def)
  have neg: "generate_dynamic_schedule e duration goals available_hours considerations
               = Inl negative_dimensions"
    if "available_hours \<le> - 1"
    unfolding g using hours_needed_negative [OF that] by (simp add: fallback_slots_def Let_def)
  show ?thesis
  proof (intro conjI impI)
    assume a: "- 1 < available_hours \<and> available_hours < 1"
    show "generate_dynamic_schedule e duration goals available_hours considerations = Inr []"
      using a zero by blast
    then show "create_schedule e duration goals available_hours considerations =
              (case draft e (prompt_method (lower duration)) goals [] considerations of
                 Inr text \<Rightarrow>
                   format_output text duration goals (str_float e available_hours)
                     considerations []
               | Inl err \<Rightarrow> ''Error: Failed to generate schedule: '' @ str_exc err)"
      using assms(1-3) by (simp add: create_schedule_def generate_schedule_def split: sum.splits)
  next
    assume "available_hours \<le> - 1"
    then show "create_schedule e duration goals available_hours considerations
              = ''Error: negative dimensions are not allowed''"
      using neg assms(1-3)
      by (simp add: create_schedule_def generate_schedule_def negative_dimensions_def)
  qed
qed

text \<open>
  C7 as stated fails at zero hours: the answer is a formatted schedule, not an error.
\<close>

theorem hours_not_validated_counterexample:
  "generate_dynamic_schedule (fallback_env ''9am: Study'' ''0.0'') ''1 week'' ''study'' 0 ''none''
     = Inr []
   \<and> create_schedule (fallback_env ''9am: Study'' ''0.0'') ''1 week'' ''study'' 0 ''none''
     = format_output ''9am: Study'' ''1 week'' ''study'' ''0.0'' ''none'' []
   \<and> format_output ''9am: Study'' ''1 week'' ''study'' ''0.0'' ''none'' []
     = join newline
         [''Schedule Overview'', ''----------------'', ''Duration: 1 week'', ''Goals: study'',
          ''Hours per day: 0.0'', ''Notes: none'', ''----------------'',
          ''09:00 - Study (High)'']
   \<and> \<not> prefix ''Error''
         (create_schedule (fallback_env ''9am: Study'' ''0.0'') ''1 week'' ''study'' 0 ''none'')"
  by code_simp

text \<open>
  Zero hours give the schedule, -3 hours the error text of the array constructor.
\<close>

theorem hours_not_validated_witness:
  "''1 week'' \<noteq> [] \<and> ''study'' \<noteq> [] \<and> ''none'' \<noteq> [] \<and> split_ws (lower ''study'') \<noteq> []
   \<and> rf_model (fallback_env ''9am: Study'' ''0.0'') = None
   \<and> generate_dynamic_schedule (fallback_env ''9am: Study'' ''0.0'') ''1 week'' ''study'' 0 ''none''
     = Inr []
   \<and> create_schedule (fallback_env ''9am: Study'' ''0.0'') ''1 week'' ''study'' 0 ''none''
     = format_output ''9am: Study'' ''1 week'' ''study'' ''0.0'' ''none'' []
   \<and> create_schedule (fallback_env ''9am: Study'' ''0.0'') ''1 week'' ''study'' (- 3) ''none''
     = ''Error: negative dimensions are not allowed''"
proof -
  let ?e = "fallback_env ''9am: Study'' ''0.0''"
  have a: "''1 week'' \<noteq> []" and b: "''study'' \<noteq> []" and c: "''none'' \<noteq> []" by simp_all
  have d: "split_ws (lower ''study'') \<noteq> []" by code_simp
  have m: "rf_model ?e = None" by (simp add: fallback_env_def)
  show ?thesis
    using hours_not_validated [OF a b c d m, of 0] hours_not_validated [OF a b c d m, of "- 3"]
          d m
    by (simp add: fallback_env_def)
qed

section \<open>Properties of the time normalization\<close>

lemma split_sep_nonempty: "split_sep d s \<noteq> []"
  by (induction s) (auto split: list.splits)

lemma hd_split_sep: "hd (split_sep d s) = takeWhile (\<lambda>c. c \<noteq> d) s"
  using split_sep_nonempty by (induction s) (auto split: list.splits)











section \<open>Properties of the line classification\<close>

text \<open>
  C3, as the code has it. A raw line, stripped, is dropped by the first test of the loop
  exactly when it is empty, contains the marker \<open>[Continue\<close> (in this case of letters), or
  contains \<open>rest\<close> anywhere in its lower-case form, inside a longer word too. A dropped
  line leaves the state of the loop as it was, so the output is the one of the text
  without that line. Every other line goes on to the chain of classifications.
\<close>

theorem skip_rule:
  "(strip raw = [] \<or> sublist ''[Continue'' (strip raw) \<or> sublist ''rest'' (lower (strip raw)) \<longrightarrow>
      format_line slots st raw = st
    \<and> format_lines slots (before @ raw # after) = format_lines slots (before @ after))
   \<and> (\<not> (strip raw = [] \<or> sublist ''[Continue'' (strip raw) \<or> sublist ''rest'' (lower (strip raw))) \<longrightarrow>
        format_line slots st raw = emit_line slots st (strip raw))"
proof (intro conjI impI)
  assume a: "strip raw = [] \<or> sublist ''[Continue'' (strip raw) \<or> sublist ''rest'' (lower (strip raw))"
  then have s: "format_line slots st raw = st" for st
    by (simp add: format_line_def skipped_def Let_def)
  then show "format_line slots st raw = st" .
  show "format_lines slots (before @ raw # after) = format_lines slots (before @ after)"
    by (simp add: format_lines_def s)
next
  assume "\<not> (strip raw = [] \<or> sublist ''[Continue'' (strip raw) \<or> sublist ''rest'' (lower (strip raw)))"
  then show "format_line slots st raw = emit_line slots st (strip raw)"
    by (simp add: format_line_def skipped_def Let_def)
qed

text \<open>
  The line \<open>Take a Rest\<close> between two others disappears; \<open>Lunch\<close> reaches the chain and is
  emitted.
\<close>

theorem skip_rule_witness:
  "sublist ''rest'' (lower (strip ''  Take a Rest  ''))
   \<and> format_lines [] ([''Plan''] @ ''  Take a Rest  '' # [''Lunch''])
       = format_lines [] ([''Plan''] @ [''Lunch''])
   \<and> format_lines [] ([''Plan''] @ [''Lunch'']) = [''Plan'', ''Lunch'']
   \<and> \<not> (strip ''Lunch'' = [] \<or> sublist ''[Continue'' (strip ''Lunch'')
        \<or> sublist ''rest'' (lower (strip ''Lunch'')))
   \<and> format_line [] ([''Plan''], None) ''Lunch'' = emit_line [] ([''Plan''], None) ''Lunch''
   \<and> emit_line [] ([''Plan''], None) ''Lunch'' = ([''Plan'', ''Lunch''], None)"
proof -
  have a: "sublist ''rest'' (lower (strip ''  Take a Rest  ''))" by code_simp
  have b: "\<not> (strip ''Lunch'' = [] \<or> sublist ''[Continue'' (strip ''Lunch'')
        \<or> sublist ''rest'' (lower (strip ''Lunch'')))" by code_simp
  have c: "format_lines [] ([''Plan''] @ [''Lunch'']) = [''Plan'', ''Lunch'']" by code_simp
  have d: "emit_line [] ([''Plan''], None) ''Lunch'' = ([''Plan'', ''Lunch''], None)" by code_simp
  have e: "strip ''Lunch'' = ''Lunch''" by code_simp
  show ?thesis
    using skip_rule [of "''  Take a Rest  ''" "[]" "([], None)" "[''Plan'']" "[''Lunch'']"]
          skip_rule [of "''Lunch''" "[]" "([''Plan''], None)" "[]" "[]"]
          a b c d e
    by simp
qed

text \<open>
  C3 as stated fails at \<open>forest walk\<close>: it has no marker and no word \<open>rest\<close>, the chain
  would emit it, and it is dropped.
\<close>

theorem skip_rule_counterexample:
  "\<not> spec_contains_word ''rest'' (lower ''forest walk'')
   \<and> \<not> sublist ''[Continue'' ''forest walk''
   \<and> format_lines [] [''forest walk''] = []
   \<and> emit_line [] ([], None) ''forest walk'' = ([''forest walk''], None)"
  by code_simp

text \<open>
  C10, as the code has it. A raw line whose upper-case form contains a weekday name is
  handled by the first of four rules that applies: it is dropped by the test of C3; it is
  a quarter header when it contains \<open>QUARTER\<close>; it is a week header when it contains
  \<open>WEEK\<close> and a hyphen; otherwise it is a day header, a blank line followed by the
  stripped text before its first colon, capitalized. In no case does it reach the
  time-block path: the result does not depend on the scored slots.
\<close>

theorem day_header_rule:
  "list_ex (\<lambda>day. sublist day (upper (strip raw))) days \<longrightarrow>
     format_line slots st raw =
       (if strip raw = [] \<or> sublist ''[Continue'' (strip raw) \<or> sublist ''rest'' (lower (strip raw))
        then st
        else if sublist ''QUARTER'' (upper (strip raw))
        then (fst st @ ['''', strip raw], Some ''QUARTER'')
        else if sublist ''WEEK'' (upper (strip raw)) \<and> sublist ''-'' (strip raw)
        then (fst st @ ['''', strip (remove_emphasis (strip raw))], Some ''WEEK'')
        else (fst st @ ['''', capitalize (strip (takeWhile (\<lambda>c. c \<noteq> CHR '':'') (strip raw)))],
              Some ''DAY''))
   \<and> format_line slots st raw = format_line other_slots st raw"
  by (simp add: format_line_def skipped_def emit_line_def Let_def hd_split_sep)

text \<open>
  The name inside a longer word, in a line that has a time and a colon.
\<close>

theorem day_header_rule_witness:
  "list_ex (\<lambda>day. sublist day (upper (strip ''  Mondays at 9am: standup ''))) days
   \<and> format_line [(9, 0.2)] ([''Plan''], None) ''  Mondays at 9am: standup ''
       = ([''Plan'', '''', ''Mondays at 9am''], Some ''DAY'')
   \<and> format_line [] ([''Plan''], None) ''  Mondays at 9am: standup ''
       = ([''Plan'', '''', ''Mondays at 9am''], Some ''DAY'')"
proof -
  have a: "list_ex (\<lambda>day. sublist day (upper (strip ''  Mondays at 9am: standup ''))) days"
    by code_simp
  have b: "format_line [] ([''Plan''], None) ''  Mondays at 9am: standup ''
       = ([''Plan'', '''', ''Mondays at 9am''], Some ''DAY'')" by code_simp
  have "format_line [(9, 0.2)] ([''Plan''], None) ''  Mondays at 9am: standup ''
          = format_line [] ([''Plan''], None) ''  Mondays at 9am: standup ''"
    using day_header_rule [of "''  Mondays at 9am: standup ''" "[(9, 0.2)]" "([''Plan''], None)" "[]"]
          a
    by blast
  then show ?thesis using a b by simp
qed

text \<open>
  C10 as stated fails at \<open>Monday: rest day\<close>, which is dropped, and at
  \<open>Week 1 - Monday: kickoff\<close>, which is emitted whole as a week header and not as the
  day header \<open>Week 1 - monday\<close>.
\<close>

theorem day_header_rule_counterexample:
  "list_ex (\<lambda>day. sublist day (upper ''Monday: rest day'')) days
   \<and> format_lines [] [''Monday: rest day''] = []
   \<and> list_ex (\<lambda>day. sublist day (upper ''Week 1 - Monday: kickoff'')) days
   \<and> format_lines [] [''Week 1 - Monday: kickoff''] = ['''', ''Week 1 - Monday: kickoff'']
   \<and> capitalize (strip (takeWhile (\<lambda>c. c \<noteq> CHR '':'') ''Week 1 - Monday: kickoff''))
       = ''Week 1 - monday''"
  by code_simp

section \<open>Properties of the time-block path\<close>

























end
